theory Spec2Isabelle
  imports Main "HOL-Library.Char_ord"
begin

section \<open>Strings\<close>

text \<open>
  JavaScript strings are modelled as lists of 8-bit characters. The three string
  operations that \<open>main()\<close> uses are written out for ASCII: \<open>toLowerCase\<close> maps
  \<open>A..Z\<close> to \<open>a..z\<close> (setting bit \<open>0x20\<close>), \<open>trim\<close> strips TAB, LF, VT, FF, CR
  and SPACE from both ends, and \<open>join\<close> is \<open>Array.prototype.join\<close>.
\<close>

definition lower_char :: "char \<Rightarrow> char" where
  "lower_char c =
     (if CHR ''A'' \<le> c \<and> c \<le> CHR ''Z''
      then (case c of Char b0 b1 b2 b3 b4 b5 b6 b7 \<Rightarrow> Char b0 b1 b2 b3 b4 True b6 b7)
      else c)"

definition toLowerCase :: "string \<Rightarrow> string" where
  "toLowerCase s = map lower_char s"

definition is_space :: "char \<Rightarrow> bool" where
  "is_space c =
     (c = CHR 0x09 \<or> c = CHR 0x0A \<or> c = CHR 0x0B \<or> c = CHR 0x0C \<or> c = CHR 0x0D \<or> c = CHR 0x20)"

definition trim :: "string \<Rightarrow> string" where
  "trim s = rev (dropWhile is_space (rev (dropWhile is_space s)))"

fun join :: "string \<Rightarrow> string list \<Rightarrow> string" where
  "join sep [] = []"
| "join sep [x] = x"
| "join sep (x # y # ys) = x @ sep @ join sep (y # ys)"

definition quoted :: "string \<Rightarrow> string" where
  "quoted s = CHR 0x27 # s @ [CHR 0x27]"

definition digit_char :: "nat \<Rightarrow> char" where
  "digit_char d = ''0123456789'' ! d"

fun show_nat :: "nat \<Rightarrow> string" where
  "show_nat n = (if n < 10 then [digit_char n] else show_nat (n div 10) @ [digit_char (n mod 10)])"

declare show_nat.simps [simp del]

definition show_int :: "int \<Rightarrow> string" where
  "show_int i = (if i < 0 then CHR ''-'' # show_nat (nat (- i)) else show_nat (nat i))"

text \<open>
  The pattern \<open>/^[a-z][a-z-]*/\<close> of the command-word scan: anchored at the start only.
  \<open>match_word\<close> returns what \<open>String.prototype.match\<close> matches (the first letter and
  the longest run of letters and dashes after it), or \<open>None\<close> for JavaScript's \<open>null\<close>.
\<close>

definition is_az :: "char \<Rightarrow> bool" where
  "is_az c = (CHR ''a'' \<le> c \<and> c \<le> CHR ''z'')"

definition match_word :: "string \<Rightarrow> string option" where
  "match_word s =
     (case s of
        [] \<Rightarrow> None
      | c # cs \<Rightarrow>
          if is_az c then Some (c # takeWhile (\<lambda>d. is_az d \<or> d = CHR ''-'') cs) else None)"

section \<open>Errors, configuration, application state\<close>

text \<open>
  A thrown JavaScript error object, with the properties that the handlers read.
  \<open>None\<close> is \<open>undefined\<close>.
\<close>

record js_error =
  err_name :: string
  err_message :: string
  err_stack :: string
  err_errno :: "int option"
  err_exitCode :: "int option"

text \<open>
  The configuration object. \<open>isVersion\<close>, \<open>isHelp\<close> and \<open>invokedFromCli\<close> are only
  tested for truthiness, so \<open>undefined\<close> is \<open>False\<close>; \<open>cwd\<close> and
  \<open>interactiveServerPort\<close> keep their absent value as \<open>None\<close>. The last two fields are
  not set by the application class: they are the counters that the option parser
  keeps in the configuration (see the parser section).
\<close>

record config =
  isInteractive :: bool
  interactiveServerPort :: "nat option"
  logLevel :: string
  cwd :: "string option"
  isVersion :: bool
  isHelp :: bool
  invokedFromCli :: bool
  verboseCount :: nat
  debugCount :: nat

type_synonym cmd_class = string

text \<open>
  The invocation context \<open>ctx\<close>, and the static properties of the application class.
  \<open>log_level\<close> is the level of the logger \<open>ctx.log\<close>, which is a property of the logger
  and not the \<open>logLevel\<close> of the configuration.
\<close>

record cli_context =
  programName :: string
  processCwd :: string
  package_version :: string
  ctx_config :: config
  log_level :: string
  commands :: "string list"
  fullCommands :: "string list"

record app_class =
  class_name :: string
  rootPath :: string
  app_programName :: string

text \<open>What \<open>CliOptions.findCommandClass\<close> returns.\<close>

record found =
  CmdClass :: cmd_class
  found_fullCommands :: "string list"

text \<open>
  Every call that leaves \<open>main()\<close> or \<open>start()\<close>, in program order: the leveled logger,
  the console (\<open>console.log\<close> writes its argument and a newline to standard output,
  \<open>console.error\<close> to standard error), the help renderer, the command resolver and the
  command body.
\<close>

datatype event =
    LogTrace string
  | LogDebug string
  | LogVerbose string
  | LogError string
  | ConsoleLog string
  | ConsoleError string
  | OutputMainHelp
  | CallFindCommandClass "string list" string
  | CallRun cmd_class cli_context "string list"

text \<open>
  What \<open>main()\<close> and \<open>start()\<close> write themselves through the console: the lines of
  their \<open>console.log\<close> calls, and the lines of their \<open>console.error\<close> calls. The lines
  that the logger writes are not among them.
\<close>

fun console_log_of :: "event list \<Rightarrow> string" where
  "console_log_of [] = []"
| "console_log_of (ConsoleLog s # es) = s @ [CHR 0x0A] @ console_log_of es"
| "console_log_of (e # es) = console_log_of es"

fun console_error_of :: "event list \<Rightarrow> string" where
  "console_error_of [] = []"
| "console_error_of (ConsoleError s # es) = s @ [CHR 0x0A] @ console_error_of es"
| "console_error_of (e # es) = console_error_of es"

text \<open>
  Modelled from the spec: the log sink (\<open>lib/cli-logger.js\<close> is missing). It is built on
  the console of the context (\<open>new CliLogger(context.console, ...)\<close>), takes leveled
  messages and suppresses those below its threshold, in the order
  silent, (error,) warn, info, verbose, debug, trace (sections 4.3 and 6 of the spec).
  The test of the common options finds the debug lines on standard output and expects
  no error message there; so info, verbose, debug and trace lines are taken to go to
  standard output and error lines to standard error. The text of a line, \<open>fmt level
  message\<close>, is left open.
\<close>

definition level_rank :: "string \<Rightarrow> nat" where
  "level_rank l =
     (if l = ''trace'' then 6 else if l = ''debug'' then 5 else if l = ''verbose'' then 4
      else if l = ''info'' then 3 else if l = ''warn'' then 2 else if l = ''error'' then 1
      else 0)"

definition log_line :: "(string \<Rightarrow> string \<Rightarrow> string) \<Rightarrow> string \<Rightarrow> string \<Rightarrow> string \<Rightarrow> string" where
  "log_line fmt threshold level msg =
     (if level_rank level \<le> level_rank threshold then fmt level msg @ [CHR 0x0A] else [])"


fun process_stderr :: "(string \<Rightarrow> string \<Rightarrow> string) \<Rightarrow> string \<Rightarrow> event list \<Rightarrow> string" where
  "process_stderr fmt thr [] = []"
| "process_stderr fmt thr (ConsoleError s # es) = s @ [CHR 0x0A] @ process_stderr fmt thr es"
| "process_stderr fmt thr (LogError m # es) = log_line fmt thr ''error'' m @ process_stderr fmt thr es"
| "process_stderr fmt thr (e # es) = process_stderr fmt thr es"

fun is_call :: "event \<Rightarrow> bool" where
  "is_call (CallFindCommandClass cmds root) = True"
| "is_call (CallRun c x args) = True"
| "is_call e = False"

text \<open>
  The code of \<open>lib/cli-options.js\<close> and of the commands is not part of the sources at
  hand, so \<open>main()\<close> takes them as parameters: \<open>parseOptions argv config\<close> is the
  configuration as \<open>CliOptions.parseOptions\<close> leaves it, \<open>findCommandClass cmds rootPath\<close>
  returns the class found or throws, and \<open>run C ctx args\<close> stands for
  \<open>new C(ctx).run(args)\<close>, which returns an exit code or throws; the command is handed
  the context object itself and may write to it, so \<open>run\<close> also gives the context as
  the command leaves it.
\<close>

record collaborators =
  parseOptions :: "string list \<Rightarrow> config \<Rightarrow> config"
  findCommandClass :: "string list \<Rightarrow> string \<Rightarrow> js_error + found"
  run :: "cmd_class \<Rightarrow> cli_context \<Rightarrow> string list \<Rightarrow> cli_context \<times> (js_error + int)"

section \<open>The application class\<close>

text \<open>The empty object \<open>{}\<close>; an absent \<open>logLevel\<close> is the empty string.\<close>

definition empty_config :: config where
  "empty_config =
     \<lparr>isInteractive = False, interactiveServerPort = None, logLevel = [], cwd = None,
      isVersion = False, isHelp = False, invokedFromCli = False,
      verboseCount = 0, debugCount = 0\<rparr>"

definition defaultLogLevel :: string where
  "defaultLogLevel = ''warn''"

definition initialiseConfiguration :: "config \<Rightarrow> config" where
  "initialiseConfiguration c =
     c\<lparr>isInteractive := False, interactiveServerPort := None, logLevel := defaultLogLevel\<rparr>"

subsection \<open>\<open>main()\<close>\<close>

text \<open>\<open>argv.forEach((arg, index) => log.trace(`<label> arg${index}: '${arg}'`))\<close>\<close>

definition arg_traces :: "string \<Rightarrow> string list \<Rightarrow> event list" where
  "arg_traces label argv =
     map (\<lambda>(i, a). LogTrace (label @ '' arg'' @ show_nat i @ '': '' @ quoted a)) (enumerate 0 argv)"

text \<open>The first loop: copy the arguments up to the first \<open>--\<close>, trimmed.\<close>

fun copy_mainArgs :: "string list \<Rightarrow> string list" where
  "copy_mainArgs [] = []"
| "copy_mainArgs (a # as) = (if a = ''--'' then [] else trim a # copy_mainArgs as)"

text \<open>The second loop: the leading command words, lower-cased.\<close>

fun scan_cmds :: "string list \<Rightarrow> string list" where
  "scan_cmds [] = []"
| "scan_cmds (a # as) =
     (let lowerCaseArg = toLowerCase a
      in if match_word lowerCaseArg \<noteq> None then lowerCaseArg # scan_cmds as else [])"

text \<open>\<open>help()\<close>\<close>

definition help_page :: "app_class \<Rightarrow> event list" where
  "help_page cls = [LogTrace (class_name cls @ ''.help()''), OutputMainHelp]"

text \<open>The \<open>catch\<close> block of \<open>main()\<close>: the events and the exit code returned.\<close>

definition main_catch :: "app_class \<Rightarrow> js_error \<Rightarrow> event list \<times> int" where
  "main_catch cls err =
     (if err_name err = ''Error'' then
        (if err_errno err = None then
           ([LogError (err_message err)] @ help_page cls @ [LogVerbose ''exit(1)''], 1)
         else
           (let code = (case err_exitCode err of Some c \<Rightarrow> c | None \<Rightarrow> 1)
            in ([LogError (err_message err), LogDebug (''exit('' @ show_int code @ '')'')], code)))
      else ([ConsoleError (err_stack err)], 2))"

text \<open>
  The \<open>try\<close> block of \<open>main()\<close>, entered with the context in which \<open>ctx.commands\<close> is
  already saved: the context as the block leaves it, the calls it made, and either the
  error thrown (by the resolver or by the command) or the code returned by the command.
\<close>

definition main_try ::
  "collaborators \<Rightarrow> app_class \<Rightarrow> cli_context \<Rightarrow> string list \<Rightarrow> string list
     \<Rightarrow> cli_context \<times> event list \<times> (js_error + int)" where
  "main_try K cls ctx argv cmds =
     (let ev1 = [CallFindCommandClass cmds (rootPath cls)]
      in case findCommandClass K cmds (rootPath cls) of
        Inl err \<Rightarrow> (ctx, ev1, Inl err)
      | Inr fnd \<Rightarrow>
          (let ctx3 = ctx\<lparr>fullCommands := found_fullCommands fnd\<rparr>;
               full = join '' '' (found_fullCommands fnd);
               cmdArgs = drop (length cmds) argv;
               ev2 = ev1
                 @ [LogDebug (''Command(s): '' @ quoted full)]
                 @ arg_traces ''cmd'' cmdArgs
                 @ [LogDebug (quoted (programName ctx @ '' '' @ full) @ '' started''),
                    CallRun (CmdClass fnd) ctx3 cmdArgs]
           in case run K (CmdClass fnd) ctx3 cmdArgs of
             (ctx4, Inl err) \<Rightarrow> (ctx4, ev2, Inl err)
           | (ctx4, Inr code) \<Rightarrow>
               (ctx4,
                ev2 @ [LogDebug (quoted (programName ctx4 @ '' '' @ join '' '' (fullCommands ctx4))
                         @ '' - returned '' @ show_int code)],
                Inr code)))"

record main_result =
  ctx_out :: cli_context
  events :: "event list"
  exit_code :: int

definition main :: "collaborators \<Rightarrow> app_class \<Rightarrow> cli_context \<Rightarrow> string list \<Rightarrow> main_result" where
  "main K cls ctx argv =
     (let ev0 = LogTrace (class_name cls @ ''.main()'') # arg_traces ''main'' argv;
          cfg = parseOptions K argv (ctx_config ctx);
          ctx1 = ctx\<lparr>ctx_config := cfg\<rparr>
      in
        if isVersion cfg then
          \<lparr>ctx_out = ctx1, events = ev0 @ [ConsoleLog (package_version ctx)], exit_code = 0\<rparr>
        else
          (let mainArgs = copy_mainArgs argv;
               cmds = scan_cmds mainArgs;
               ctx2 = ctx1\<lparr>commands := cmds\<rparr>
           in
             if mainArgs = [] \<or> (cmds = [] \<and> isHelp cfg) then
               \<lparr>ctx_out = ctx2, events = ev0 @ help_page cls, exit_code = 0\<rparr>
             else
               (case main_try K cls ctx2 argv cmds of
                  (ctx3, ev, Inr code) \<Rightarrow>
                    \<lparr>ctx_out = ctx3, events = ev0 @ ev, exit_code = code\<rparr>
                | (ctx3, ev, Inl err) \<Rightarrow>
                    \<lparr>ctx_out = ctx3, events = ev0 @ ev @ fst (main_catch cls err),
                     exit_code = snd (main_catch cls err)\<rparr>)))"

text \<open>
  The context with which the \<open>try\<close> block is entered: the parsed configuration and the
  command words saved in it.
\<close>

definition try_context :: "collaborators \<Rightarrow> cli_context \<Rightarrow> string list \<Rightarrow> cli_context" where
  "try_context K ctx argv =
     ctx\<lparr>ctx_config := parseOptions K argv (ctx_config ctx),
         commands := scan_cmds (copy_mainArgs argv)\<rparr>"

text \<open>
  \<open>reaches_try\<close>: neither of the two early returns is taken, so the \<open>try\<close> block is
  entered. \<open>thrown\<close>: inside the block, the resolver throws \<open>err\<close>, or it returns a class
  and the command throws \<open>err\<close>.
\<close>

definition reaches_try :: "collaborators \<Rightarrow> cli_context \<Rightarrow> string list \<Rightarrow> bool" where
  "reaches_try K ctx argv =
     (\<not> isVersion (parseOptions K argv (ctx_config ctx))
      \<and> copy_mainArgs argv \<noteq> []
      \<and> \<not> (scan_cmds (copy_mainArgs argv) = [] \<and> isHelp (parseOptions K argv (ctx_config ctx))))"

definition thrown :: "collaborators \<Rightarrow> app_class \<Rightarrow> cli_context \<Rightarrow> string list \<Rightarrow> js_error \<Rightarrow> bool" where
  "thrown K cls ctx argv err =
     (case findCommandClass K (scan_cmds (copy_mainArgs argv)) (rootPath cls) of
        Inl e \<Rightarrow> e = err
      | Inr fnd \<Rightarrow>
          snd (run K (CmdClass fnd)
            ((try_context K ctx argv)\<lparr>fullCommands := found_fullCommands fnd\<rparr>)
            (drop (length (scan_cmds (copy_mainArgs argv))) argv)) = Inl err)"

subsection \<open>\<open>start()\<close>\<close>

text \<open>
  The wrapper \<open>start()\<close>, from the call of \<open>doStart()\<close> on (the program name, the
  Wscript check and the creation of the logger before it are taken to succeed).
  \<open>doStart()\<close> either returns or lets an error escape; \<open>start()\<close> then either passes
  through or calls \<open>process.exit\<close>.
\<close>

datatype start_result = PassThrough | ProcessExit int

definition start :: "js_error + unit \<Rightarrow> event list \<times> start_result" where
  "start doStart =
     (case doStart of
        Inr u \<Rightarrow> ([], PassThrough)
      | Inl err \<Rightarrow>
          (if err_name err = ''Error'' then [LogError (err_message err)]
           else [ConsoleError (err_stack err)],
           ProcessExit (case err_exitCode err of Some c \<Rightarrow> c | None \<Rightarrow> 1)))"



subsection \<open>The interactive path\<close>







section \<open>The option parser\<close>

text \<open>
  Modelled from the spec: \<open>CliOptions.parseOptions\<close> and the registry of the global
  options, which live in \<open>lib/cli-options.js\<close> and are missing from the sources. What
  follows is the parser contract of the specification (sections 3, 4.1, 4.3 and 6):
  an option has aliases, an arity and an effect on the configuration; tokens are read
  left to right up to the first \<open>--\<close>; a token starting with \<open>--\<close> is a long option, a
  token starting with one \<open>-\<close> is a cluster of one-letter options; an option that takes
  a value consumes the rest of its cluster or else the next token; tokens that are not
  recognised are collected and returned; effects apply in encounter order, the last
  write wins, and the verbosity counters accumulate.
\<close>

text \<open>
  Modelled from the spec: an \<open>OptionSpec\<close> (section 3). The effect takes the value of the
  option, which is empty for a flag.
\<close>

datatype arity = Boolean | TakesValue

record option_spec =
  aliases :: "string list"
  arity :: arity
  effect :: "string \<Rightarrow> config \<Rightarrow> config"

text \<open>
  Modelled from the spec: repeated verbosity flags raise a counter; one verbose flag
  selects \<open>info\<close> and a doubled one \<open>verbose\<close>, one debug flag selects \<open>debug\<close> and a
  doubled one \<open>trace\<close> (sections 3 and 4.3).
\<close>

definition verbose_effect :: "config \<Rightarrow> config" where
  "verbose_effect c =
     c\<lparr>verboseCount := Suc (verboseCount c),
       logLevel := (if 2 \<le> Suc (verboseCount c) then ''verbose'' else ''info'')\<rparr>"

definition debug_effect :: "config \<Rightarrow> config" where
  "debug_effect c =
     c\<lparr>debugCount := Suc (debugCount c),
       logLevel := (if 2 \<le> Suc (debugCount c) then ''trace'' else ''debug'')\<rparr>"

text \<open>Modelled from the spec: the global options of section 6.\<close>

definition globalOptions :: "option_spec list" where
  "globalOptions =
     [\<lparr>aliases = [''-h'', ''--help''], arity = Boolean, effect = (\<lambda>v c. c\<lparr>isHelp := True\<rparr>)\<rparr>,
      \<lparr>aliases = [''--version''], arity = Boolean, effect = (\<lambda>v c. c\<lparr>isVersion := True\<rparr>)\<rparr>,
      \<lparr>aliases = [''-s'', ''--silent''], arity = Boolean,
         effect = (\<lambda>v c. c\<lparr>logLevel := ''silent''\<rparr>)\<rparr>,
      \<lparr>aliases = [''-q'', ''--quiet''], arity = Boolean,
         effect = (\<lambda>v c. c\<lparr>logLevel := ''warn''\<rparr>)\<rparr>,
      \<lparr>aliases = [''-v'', ''--verbose''], arity = Boolean, effect = (\<lambda>v. verbose_effect)\<rparr>,
      \<lparr>aliases = [''-d'', ''--debug''], arity = Boolean, effect = (\<lambda>v. debug_effect)\<rparr>,
      \<lparr>aliases = [''--trace''], arity = Boolean,
         effect = (\<lambda>v c. c\<lparr>logLevel := ''trace''\<rparr>)\<rparr>,
      \<lparr>aliases = [''-i'', ''--interactive''], arity = Boolean,
         effect = (\<lambda>v c. c\<lparr>isInteractive := True\<rparr>)\<rparr>]"

fun lookup_option :: "option_spec list \<Rightarrow> string \<Rightarrow> option_spec option" where
  "lookup_option [] t = None"
| "lookup_option (sp # sps) t = (if t \<in> set (aliases sp) then Some sp else lookup_option sps t)"

text \<open>
  Modelled from the spec: a cluster of one-letter options, letter by letter. \<open>None\<close>:
  a letter is not a known option, and the token is not recognised. Otherwise the
  configuration, and the option that still waits for its value in the next token, if
  any.
\<close>

fun apply_cluster ::
  "option_spec list \<Rightarrow> string \<Rightarrow> config \<Rightarrow> (config \<times> option_spec option) option" where
  "apply_cluster reg [] c = Some (c, None)"
| "apply_cluster reg (ch # chs) c =
     (case lookup_option reg [CHR ''-'', ch] of
        None \<Rightarrow> None
      | Some sp \<Rightarrow>
          (case arity sp of
             Boolean \<Rightarrow> apply_cluster reg chs (effect sp [] c)
           | TakesValue \<Rightarrow>
               if chs = [] then Some (c, Some sp) else Some (effect sp chs c, None)))"

definition is_long :: "string \<Rightarrow> bool" where
  "is_long t = (take 2 t = ''--'')"

definition is_short :: "string \<Rightarrow> bool" where
  "is_short t = (take 1 t = ''-'' \<and> 1 < length t)"

text \<open>
  Modelled from the spec: the token loop. It gives the configuration after the options
  region, and the tokens that were not consumed (unknown tokens, then the literal tail
  after the first \<open>--\<close>).
\<close>

fun parse_tokens ::
  "option_spec list \<Rightarrow> option_spec option \<Rightarrow> string list \<Rightarrow> config \<Rightarrow> config \<times> string list" where
  "parse_tokens reg pending [] c = (c, [])"
| "parse_tokens reg pending (t # ts) c =
     (if t = ''--'' then (c, ts)
      else case pending of
        Some sp \<Rightarrow> parse_tokens reg None ts (effect sp t c)
      | None \<Rightarrow>
          (if is_long t then
             (case lookup_option reg t of
                None \<Rightarrow> (case parse_tokens reg None ts c of (c', rest) \<Rightarrow> (c', t # rest))
              | Some sp \<Rightarrow>
                  (case arity sp of
                     Boolean \<Rightarrow> parse_tokens reg None ts (effect sp [] c)
                   | TakesValue \<Rightarrow> parse_tokens reg (Some sp) ts c))
           else if is_short t then
             (case apply_cluster reg (tl t) c of
                None \<Rightarrow> (case parse_tokens reg None ts c of (c', rest) \<Rightarrow> (c', t # rest))
              | Some (c1, p) \<Rightarrow> parse_tokens reg p ts c1)
           else (case parse_tokens reg None ts c of (c', rest) \<Rightarrow> (c', t # rest))))"

text \<open>
  Modelled from the spec: \<open>CliOptions.parseOptions(argv, config)\<close> as \<open>main()\<close> calls it,
  with the global options; the configuration it leaves.
\<close>

definition spec_parseOptions :: "string list \<Rightarrow> config \<Rightarrow> config" where
  "spec_parseOptions argv c = fst (parse_tokens globalOptions None argv c)"

subsection \<open>The level flags of an argument vector\<close>











section \<open>A sample application\<close>

text \<open>
  The concrete instances below run a small application in the style of the test
  application \<open>xtest\<close>: its only command is \<open>cwd\<close> (class \<open>Cwd\<close>, whose body returns
  \<open>CliExitCodes.SUCCESS\<close>, that is 0); its resolver rejects every other word list with a
  plain \<open>Error\<close>; its options are the global ones.
\<close>

definition unsupported :: "string list \<Rightarrow> js_error" where
  "unsupported cmds =
     \<lparr>err_name = ''Error'',
      err_message = ''Command '' @ quoted (join '' '' cmds) @ '' not supported.'',
      err_stack = ''Error: Command '' @ quoted (join '' '' cmds) @ '' not supported.'',
      err_errno = None, err_exitCode = None\<rparr>"

definition xtest_findCommandClass :: "string list \<Rightarrow> string \<Rightarrow> js_error + found" where
  "xtest_findCommandClass cmds root =
     (if cmds = [''cwd''] then Inr \<lparr>CmdClass = ''Cwd'', found_fullCommands = [''cwd'']\<rparr>
      else Inl (unsupported cmds))"

text \<open>
  Three failures a command can throw: a plain \<open>Error\<close> to which the exit code 3
  (input error) was attached, a file system error as Node.js raises it (named \<open>Error\<close>,
  with an \<open>errno\<close>), and a \<open>TypeError\<close> to which an exit code was attached as well.
\<close>

definition input_error :: js_error where
  "input_error =
     \<lparr>err_name = ''Error'', err_message = ''bad input'', err_stack = ''Error: bad input'',
      err_errno = None, err_exitCode = Some 3\<rparr>"

definition enoent_error :: js_error where
  "enoent_error =
     \<lparr>err_name = ''Error'', err_message = ''ENOENT: no such file or directory'',
      err_stack = ''Error: ENOENT: no such file or directory'',
      err_errno = Some (- 2), err_exitCode = None\<rparr>"

definition type_error :: js_error where
  "type_error =
     \<lparr>err_name = ''TypeError'', err_message = ''x is not a function'',
      err_stack = ''TypeError: x is not a function at Cwd.doRun'',
      err_errno = None, err_exitCode = Some 7\<rparr>"

definition xtest :: collaborators where
  "xtest =
     \<lparr>parseOptions = spec_parseOptions,
      findCommandClass = xtest_findCommandClass,
      run = (\<lambda>C x args. (x, Inr 0))\<rparr>"

text \<open>The same application with a command whose body throws \<open>err\<close>.\<close>

definition throwing :: "js_error \<Rightarrow> collaborators" where
  "throwing err = xtest\<lparr>run := (\<lambda>C x args. (x, Inl err))\<rparr>"




definition Xtest :: app_class where
  "Xtest = \<lparr>class_name = ''Xtest'', rootPath = ''/xtest'', app_programName = ''xtest''\<rparr>"

definition xtest_ctx :: cli_context where
  "xtest_ctx =
     \<lparr>programName = ''xtest'', processCwd = ''/home'', package_version = ''0.1.0'',
      ctx_config = (initialiseConfiguration empty_config)\<lparr>cwd := Some ''/home''\<rparr>,
      log_level = ''warn'', commands = [], fullCommands = []\<rparr>"

section \<open>Properties of \<open>main()\<close>\<close>

lemma console_log_of_append: "console_log_of (xs @ ys) = console_log_of xs @ console_log_of ys"
  by (induction xs rule: console_log_of.induct) auto

lemma console_error_of_append: "console_error_of (xs @ ys) = console_error_of xs @ console_error_of ys"
  by (induction xs rule: console_error_of.induct) auto

lemma arg_traces_map:
  "arg_traces l a =
     map (\<lambda>p. LogTrace (l @ '' arg'' @ show_nat (fst p) @ '': '' @ quoted (snd p))) (enumerate 0 a)"
  by (simp add: arg_traces_def case_prod_beta)

lemma console_log_of_traces: "console_log_of (map (\<lambda>p. LogTrace (f p)) xs) = []"
  by (induction xs) auto

lemma console_error_of_traces: "console_error_of (map (\<lambda>p. LogTrace (f p)) xs) = []"
  by (induction xs) auto

lemma calls_traces: "filter is_call (map (\<lambda>p. LogTrace (f p)) xs) = []"
  by (induction xs) auto

lemma console_log_of_arg_traces [simp]: "console_log_of (arg_traces l a) = []"
  unfolding arg_traces_map by (rule console_log_of_traces)

lemma console_error_of_arg_traces [simp]: "console_error_of (arg_traces l a) = []"
  unfolding arg_traces_map by (rule console_error_of_traces)

lemma calls_arg_traces [simp]: "filter is_call (arg_traces l a) = []"
  unfolding arg_traces_map by (rule calls_traces)

lemma arg_traces_LogTrace: "e \<in> set (arg_traces l a) \<Longrightarrow> \<exists>m. e = LogTrace m"
  by (auto simp: arg_traces_def)

lemma no_help_in_arg_traces [simp]: "OutputMainHelp \<notin> set (arg_traces l a)"
  using arg_traces_LogTrace by blast

lemma no_error_in_arg_traces [simp]: "LogError m \<notin> set (arg_traces l a)"
  using arg_traces_LogTrace by blast

lemma no_run_in_arg_traces [simp]: "CallRun C x args \<notin> set (arg_traces l a)"
  using arg_traces_LogTrace by blast

text \<open>What the \<open>try\<close> block emits: no console output, no help, no error message.\<close>

lemma main_try_quiet:
  "console_log_of (fst (snd (main_try K cls x argv cmds))) = []"
  "console_error_of (fst (snd (main_try K cls x argv cmds))) = []"
  "OutputMainHelp \<notin> set (fst (snd (main_try K cls x argv cmds)))"
  "LogError m \<notin> set (fst (snd (main_try K cls x argv cmds)))"
  by (simp_all add: main_try_def Let_def console_log_of_append console_error_of_append
      split: sum.split prod.split)

lemma main_try_thrown:
  "thrown K cls ctx argv err \<longleftrightarrow>
     snd (snd (main_try K cls (try_context K ctx argv) argv (scan_cmds (copy_mainArgs argv)))) = Inl err"
  by (auto simp: thrown_def main_try_def Let_def split: sum.splits prod.splits)

text \<open>Past the two early returns, a thrown failure is mapped by the \<open>catch\<close> block.\<close>

lemma main_caught:
  assumes "reaches_try K ctx argv" and "thrown K cls ctx argv err"
  shows "events (main K cls ctx argv) =
           LogTrace (class_name cls @ ''.main()'') # arg_traces ''main'' argv
             @ fst (snd (main_try K cls (try_context K ctx argv) argv (scan_cmds (copy_mainArgs argv))))
             @ fst (main_catch cls err)"
    and "exit_code (main K cls ctx argv) = snd (main_catch cls err)"
proof -
  obtain c ev res where t:
    "main_try K cls (try_context K ctx argv) argv (scan_cmds (copy_mainArgs argv)) = (c, ev, res)"
    by (cases "main_try K cls (try_context K ctx argv) argv (scan_cmds (copy_mainArgs argv))")
  with assms(2) have res: "res = Inl err"
    by (simp add: main_try_thrown)
  show "events (main K cls ctx argv) =
           LogTrace (class_name cls @ ''.main()'') # arg_traces ''main'' argv
             @ fst (snd (main_try K cls (try_context K ctx argv) argv (scan_cmds (copy_mainArgs argv))))
             @ fst (main_catch cls err)"
    using assms(1) t res
    by (auto simp: main_def reaches_try_def Let_def try_context_def)
  show "exit_code (main K cls ctx argv) = snd (main_catch cls err)"
    using assms(1) t res
    by (auto simp: main_def reaches_try_def Let_def try_context_def)
qed

text \<open>
  Claim C3. A failure thrown by the resolver or by the command whose name is not
  \<open>Error\<close> has its stack trace written to standard error with \<open>console.error\<close>, as the
  last thing \<open>main()\<close> does; the exit code is 2 whatever \<open>exitCode\<close> the error carries,
  the help page is not shown and no message is logged at error severity.
\<close>

theorem main_system_error:
  assumes "reaches_try K ctx argv" and "thrown K cls ctx argv err"
    and "err_name err \<noteq> ''Error''"
  shows "exit_code (main K cls ctx argv) = 2
       \<and> console_error_of (events (main K cls ctx argv)) = err_stack err @ [CHR 0x0A]
       \<and> last (events (main K cls ctx argv)) = ConsoleError (err_stack err)
       \<and> OutputMainHelp \<notin> set (events (main K cls ctx argv))
       \<and> (\<forall>m. LogError m \<notin> set (events (main K cls ctx argv)))"
proof -
  have c: "main_catch cls err = ([ConsoleError (err_stack err)], 2)"
    using assms(3) by (simp add: main_catch_def)
  show ?thesis
    unfolding main_caught [OF assms(1,2)] c
    by (simp add: console_error_of_append main_try_quiet)
qed

text \<open>
  Claim C2, as amended. A failure thrown by the resolver or by the command whose name
  is \<open>Error\<close> has its message logged at error severity, and nothing goes to standard
  error through the console. If it has no \<open>errno\<close>, the help page is shown and the exit
  code is 1, whatever \<open>exitCode\<close> it carries; if it has an \<open>errno\<close>, the help page is not
  shown and the exit code is its \<open>exitCode\<close> when that is defined and 1 otherwise.
\<close>

theorem main_user_error:
  assumes "reaches_try K ctx argv" and "thrown K cls ctx argv err"
    and "err_name err = ''Error''"
  shows "LogError (err_message err) \<in> set (events (main K cls ctx argv))
       \<and> exit_code (main K cls ctx argv) =
           (if err_errno err = None then 1
            else case err_exitCode err of Some c \<Rightarrow> c | None \<Rightarrow> 1)
       \<and> (OutputMainHelp \<in> set (events (main K cls ctx argv))) = (err_errno err = None)
       \<and> console_error_of (events (main K cls ctx argv)) = []"
proof (cases "err_errno err")
  case None
  then have c: "main_catch cls err =
      ([LogError (err_message err)] @ help_page cls @ [LogVerbose ''exit(1)''], 1)"
    using assms(3) by (simp add: main_catch_def)
  show ?thesis
    unfolding main_caught [OF assms(1,2)] c using None
    by (simp add: console_error_of_append main_try_quiet help_page_def)
next
  case (Some n)
  then have c: "main_catch cls err =
      ([LogError (err_message err),
        LogDebug (''exit('' @ show_int (case err_exitCode err of Some c \<Rightarrow> c | None \<Rightarrow> 1) @ '')'')],
       case err_exitCode err of Some c \<Rightarrow> c | None \<Rightarrow> 1)"
    using assms(3) by (simp add: main_catch_def Let_def)
  show ?thesis
    unfolding main_caught [OF assms(1,2)] c using Some
    by (simp add: console_error_of_append main_try_quiet)
qed




lemma process_stderr_traces: "process_stderr fmt thr (map (\<lambda>p. LogTrace (f p)) xs) = []"
  by (induction xs) auto

lemma process_stderr_arg_traces [simp]: "process_stderr fmt thr (arg_traces l a) = []"
  unfolding arg_traces_map by (rule process_stderr_traces)





lemma xtest_simps [simp]:
  "parseOptions xtest = spec_parseOptions"
  "findCommandClass xtest = xtest_findCommandClass"
  "run xtest = (\<lambda>C x args. (x, Inr 0))"
  "parseOptions (throwing err) = spec_parseOptions"
  "findCommandClass (throwing err) = xtest_findCommandClass"
  "run (throwing err) = (\<lambda>C x args. (x, Inl err))"
  by (simp_all add: xtest_def throwing_def)

lemmas parser_defs =
  spec_parseOptions_def globalOptions_def is_long_def is_short_def
  verbose_effect_def debug_effect_def

lemmas scan_defs =
  trim_def is_space_def toLowerCase_def lower_char_def match_word_def is_az_def

lemmas sample_defs =
  xtest_ctx_def Xtest_def initialiseConfiguration_def empty_config_def defaultLogLevel_def
  xtest_findCommandClass_def unsupported_def input_error_def type_error_def enoent_error_def



theorem main_system_error_witness:
  "reaches_try (throwing type_error) xtest_ctx [''cwd'']
   \<and> thrown (throwing type_error) Xtest xtest_ctx [''cwd''] type_error
   \<and> err_name type_error \<noteq> ''Error''
   \<and> err_exitCode type_error = Some 7
   \<and> exit_code (main (throwing type_error) Xtest xtest_ctx [''cwd'']) = 2
   \<and> console_error_of (events (main (throwing type_error) Xtest xtest_ctx [''cwd'']))
       = ''TypeError: x is not a function at Cwd.doRun'' @ [CHR 0x0A]
   \<and> OutputMainHelp \<notin> set (events (main (throwing type_error) Xtest xtest_ctx [''cwd'']))"
proof -
  let ?K = "throwing type_error"
  have r: "reaches_try ?K xtest_ctx [''cwd'']"
    by (simp add: reaches_try_def parser_defs sample_defs scan_defs)
  have t: "thrown ?K Xtest xtest_ctx [''cwd''] type_error"
    by (simp add: thrown_def scan_defs xtest_findCommandClass_def Xtest_def)
  have n: "err_name type_error \<noteq> ''Error''"
    by (simp add: type_error_def)
  have c: "err_exitCode type_error = Some 7"
    and s: "err_stack type_error = ''TypeError: x is not a function at Cwd.doRun''"
    by (simp_all add: type_error_def)
  from main_system_error [OF r t n] r t n c show ?thesis
    unfolding s by blast
qed

theorem main_user_error_witness:
  "reaches_try xtest xtest_ctx [''nosuch'']
   \<and> thrown xtest Xtest xtest_ctx [''nosuch''] (unsupported [''nosuch''])
   \<and> err_name (unsupported [''nosuch'']) = ''Error''
   \<and> exit_code (main xtest Xtest xtest_ctx [''nosuch'']) = 1
   \<and> OutputMainHelp \<in> set (events (main xtest Xtest xtest_ctx [''nosuch'']))"
proof -
  have r: "reaches_try xtest xtest_ctx [''nosuch'']"
    by (simp add: reaches_try_def parser_defs sample_defs scan_defs)
  have t: "thrown xtest Xtest xtest_ctx [''nosuch''] (unsupported [''nosuch''])"
    by (simp add: thrown_def scan_defs xtest_findCommandClass_def Xtest_def)
  have n: "err_name (unsupported [''nosuch'']) = ''Error''"
    by (simp add: unsupported_def)
  have e: "err_errno (unsupported [''nosuch'']) = None"
    by (simp add: unsupported_def)
  from main_user_error [OF r t n] r t n show ?thesis
    unfolding e by simp
qed

text \<open>
  The claim as stated fails: a command that throws a plain \<open>Error\<close> carrying the
  explicit exit code 3 makes \<open>main()\<close> show the help page and return 1, not 3; and a
  file system error, which carries an \<open>errno\<close> and no \<open>exitCode\<close>, gives the exit code 1
  without the help page.
\<close>

theorem explicit_code_counterexample:
  "reaches_try (throwing input_error) xtest_ctx [''cwd'']
   \<and> thrown (throwing input_error) Xtest xtest_ctx [''cwd''] input_error
   \<and> err_name input_error = ''Error''
   \<and> err_exitCode input_error = Some 3
   \<and> exit_code (main (throwing input_error) Xtest xtest_ctx [''cwd'']) = 1
   \<and> OutputMainHelp \<in> set (events (main (throwing input_error) Xtest xtest_ctx [''cwd'']))
   \<and> thrown (throwing enoent_error) Xtest xtest_ctx [''cwd''] enoent_error
   \<and> err_name enoent_error = ''Error''
   \<and> err_exitCode enoent_error = None
   \<and> err_errno enoent_error = Some (- 2)
   \<and> exit_code (main (throwing enoent_error) Xtest xtest_ctx [''cwd'']) = 1
   \<and> OutputMainHelp \<notin> set (events (main (throwing enoent_error) Xtest xtest_ctx [''cwd'']))"
  by (simp add: reaches_try_def thrown_def main_def main_try_def main_catch_def help_page_def
      try_context_def arg_traces_def Let_def parser_defs sample_defs scan_defs)


text \<open>
  Claim C4, as amended. When the version flag is not set and either no token precedes
  the first \<open>--\<close> (the empty input among them), or there is no leading command word and
  the help flag is set, \<open>main()\<close> shows the help page and returns 0 without calling the
  resolver or a command.
\<close>

theorem main_help_page:
  assumes "\<not> isVersion (parseOptions K argv (ctx_config ctx))"
    and "copy_mainArgs argv = []
         \<or> (scan_cmds (copy_mainArgs argv) = [] \<and> isHelp (parseOptions K argv (ctx_config ctx)))"
  shows "events (main K cls ctx argv) =
           LogTrace (class_name cls @ ''.main()'') # arg_traces ''main'' argv @ help_page cls
       \<and> OutputMainHelp \<in> set (events (main K cls ctx argv))
       \<and> exit_code (main K cls ctx argv) = 0
       \<and> filter is_call (events (main K cls ctx argv)) = []"
proof -
  have ev: "events (main K cls ctx argv) =
           LogTrace (class_name cls @ ''.main()'') # arg_traces ''main'' argv @ help_page cls"
    and ex: "exit_code (main K cls ctx argv) = 0"
    using assms by (auto simp: main_def Let_def)
  show ?thesis
    unfolding ev ex by (simp add: help_page_def)
qed

theorem main_help_page_witness:
  "\<not> isVersion (parseOptions xtest [''-h'', ''--'', ''cwd''] (ctx_config xtest_ctx))
   \<and> scan_cmds (copy_mainArgs [''-h'', ''--'', ''cwd'']) = []
   \<and> isHelp (parseOptions xtest [''-h'', ''--'', ''cwd''] (ctx_config xtest_ctx))
   \<and> OutputMainHelp \<in> set (events (main xtest Xtest xtest_ctx [''-h'', ''--'', ''cwd'']))
   \<and> exit_code (main xtest Xtest xtest_ctx [''-h'', ''--'', ''cwd'']) = 0
   \<and> copy_mainArgs [] = []
   \<and> OutputMainHelp \<in> set (events (main xtest Xtest xtest_ctx []))
   \<and> exit_code (main xtest Xtest xtest_ctx []) = 0"
proof -
  have v: "\<not> isVersion (parseOptions xtest [''-h'', ''--'', ''cwd''] (ctx_config xtest_ctx))"
    and h: "isHelp (parseOptions xtest [''-h'', ''--'', ''cwd''] (ctx_config xtest_ctx))"
    and w: "\<not> isVersion (parseOptions xtest [] (ctx_config xtest_ctx))"
    by (simp_all add: parser_defs sample_defs)
  have c: "scan_cmds (copy_mainArgs [''-h'', ''--'', ''cwd'']) = []"
    by (simp add: scan_defs)
  have e: "copy_mainArgs [] = []"
    by simp
  from main_help_page [OF v disjI2 [OF conjI [OF c h]], of Xtest]
    main_help_page [OF w disjI1 [OF e], of Xtest] v h c e
  show ?thesis by blast
qed

text \<open>
  The claim as stated fails on inputs without a leading word: for \<open>--version\<close> the
  version is printed and no help page; for \<open>-v\<close> the resolver is called with the empty
  word list, and in the sample application the exit code is 1.
\<close>

theorem no_words_counterexample:
  "scan_cmds (copy_mainArgs [''--version'']) = []
   \<and> OutputMainHelp \<notin> set (events (main xtest Xtest xtest_ctx [''--version'']))
   \<and> scan_cmds (copy_mainArgs [''-v'']) = []
   \<and> CallFindCommandClass [] ''/xtest'' \<in> set (events (main xtest Xtest xtest_ctx [''-v'']))
   \<and> exit_code (main xtest Xtest xtest_ctx [''-v'']) = 1"
  by (simp add: main_def main_try_def main_catch_def help_page_def arg_traces_def
      Let_def parser_defs sample_defs scan_defs)

section \<open>The terminator, the command words, the interactive path\<close>










text \<open>
  Claim C6 at a failing input. The pattern has no anchor at its end and matches the
  prefix \<open>build\<close> of \<open>build2\<close>, so tokens with digits or punctuation after a first letter
  are taken as command words and do not end the scan.
\<close>

theorem scan_accepts_digits:
  "scan_cmds (copy_mainArgs [''build2'', ''a.b'', ''-v'']) = [''build2'', ''a.b'']
   \<and> match_word ''build2'' = Some ''build''"
  by (simp add: scan_defs)

text \<open>
  Claim C10. For an error that escapes \<open>doStart()\<close>, \<open>start()\<close> exits with the error's
  \<open>exitCode\<close> when it is defined and with 1 otherwise, after logging the message of an
  error named \<open>Error\<close> or printing the stack trace of any other; the exit code is 2 only
  when the error itself carries 2.
\<close>

theorem start_exit_code:
  "snd (start (Inl err)) = ProcessExit (case err_exitCode err of Some c \<Rightarrow> c | None \<Rightarrow> 1)
   \<and> fst (start (Inl err)) =
       (if err_name err = ''Error'' then [LogError (err_message err)]
        else [ConsoleError (err_stack err)])
   \<and> (snd (start (Inl err)) = ProcessExit 2) = (err_exitCode err = Some 2)"
  by (simp add: start_def split: option.split)

theorem start_exit_code_witness:
  "snd (start (Inl type_error)) = ProcessExit 7
   \<and> snd (start (Inl (type_error\<lparr>err_exitCode := None\<rparr>))) = ProcessExit 1
   \<and> fst (start (Inl (type_error\<lparr>err_exitCode := None\<rparr>)))
       = [ConsoleError ''TypeError: x is not a function at Cwd.doRun'']
   \<and> snd (start (Inl (unsupported [''nosuch'']))) = ProcessExit 1
   \<and> snd (start (Inl input_error)) = ProcessExit 3
   \<and> fst (start (Inl input_error)) = [LogError ''bad input'']"
  using start_exit_code [of type_error] start_exit_code [of "type_error\<lparr>err_exitCode := None\<rparr>"]
    start_exit_code [of "unsupported [''nosuch'']"] start_exit_code [of input_error]
  by (simp add: type_error_def unsupported_def input_error_def)



section \<open>Log levels\<close>





















end
